theory Spec2Isabelle
  imports Main
begin

section \<open>The terminal profile service\<close>

text \<open>
  A shallow embedding of \<^verbatim>\<open>TerminalProfileService\<close> (the class that keeps the list of
  available terminal profiles up to date). The object's fields become a record that every
  method takes and returns; a thrown error or a rejected promise becomes a value; the
  collaborators the class only calls (configuration, contribution registry, terminal backend,
  remote agent) become a record of what they answer.

  One \<^verbatim>\<open>async\<close> method is run to completion as one step: the interleaving of two
  refresh cycles at their \<^verbatim>\<open>await\<close> points is outside this model. The listeners that the
  constructor subscribes (to changes of the extensions and of the configuration) only call
  \<^verbatim>\<open>refreshAvailableProfiles\<close> later on; \<^verbatim>\<open>registerContributedProfile\<close> only writes the
  configuration. Neither is part of the model.
\<close>

subsection \<open>Data\<close>

text \<open>
  \<^verbatim>\<open>ITerminalProfile\<close>, with the fields that \<^verbatim>\<open>profilesEqual\<close> reads. The types of
  \<^verbatim>\<open>args\<close> and \<^verbatim>\<open>icon\<close> are declared outside the sources at hand and stay type
  parameters. An optional field is an \<open>option\<close>, \<open>None\<close> for \<^verbatim>\<open>undefined\<close>.
\<close>

record ('a, 'i) terminal_profile =
  profileName :: string
  args :: 'a
  color :: "string option"
  icon :: 'i
  isAutoDetected :: "bool option"
  isDefault :: bool
  overrideName :: "bool option"
  path :: string

text \<open>
  A value that is \<^verbatim>\<open>undefined\<close>, a string, or an object. An object is given by its
  reference (its identity) and by its content, the values of its fields, kept as text.
  \<^verbatim>\<open>===\<close> compares two strings by their characters and two objects by their references
  alone: two objects with the same content and different references are not \<^verbatim>\<open>===\<close>.
\<close>

datatype js_value = Undefined | Str string | Object nat string

fun strictEquals :: "js_value \<Rightarrow> js_value \<Rightarrow> bool" where
  "strictEquals Undefined Undefined = True"
| "strictEquals (Str a) (Str b) = (a = b)"
| "strictEquals (Object reference content) (Object reference' content') = (reference = reference')"
| "strictEquals _ _ = False"

text \<open>\<^verbatim>\<open>IExtensionTerminalProfile\<close>, with the fields that \<^verbatim>\<open>contributedProfilesEqual\<close> reads.\<close>

record extension_terminal_profile =
  extensionIdentifier :: string
  color_c :: "string option"
  icon_c :: js_value
  id_c :: string
  title :: string

text \<open>
  \<^verbatim>\<open>IShellLaunchConfig\<close>, with the two properties that
  \<^verbatim>\<open>getContributedDefaultProfile\<close> inspects. For \<open>executable\<close>, \<open>None\<close> says that the
  object has no such key (\<^verbatim>\<open>'executable' in shellLaunchConfig\<close> is false).
\<close>

record shell_launch_config =
  extHostTerminalId :: "string option"
  executable :: "string option"

datatype OperatingSystem = Windows | Macintosh | Linux

text \<open>
  A value stored under a profile name in the \<^verbatim>\<open>profiles.<platform>\<close> setting: \<^verbatim>\<open>null\<close>,
  or anything else (kept as text).
\<close>

datatype config_value = Null | Json string

text \<open>
  What a method can fail with: the \<^verbatim>\<open>Error('no default profile')\<close> that
  \<^verbatim>\<open>getDefaultProfileName\<close> throws, or whatever the backend's \<^verbatim>\<open>getProfiles\<close>
  rejected with.
\<close>

datatype failure = NoDefaultProfile | BackendFailure string

text \<open>
  The collaborators, as seen during one method call.
  \<^item> \<open>primaryOffProcessTerminalService\<close>: whether the constructor finds a backend (the
    remote terminal service when there is a remote authority, else the local one or, without
    it, the remote one).
  \<^item> \<open>getProfiles k profiles defaultProfileName\<close>: the answer of the backend's
    \<^verbatim>\<open>getProfiles\<close> the \<open>k\<close>-th time the service calls it (\<open>k\<close> from 0), \<open>Inl\<close> when
    the promise is rejected. Its third argument, \<^verbatim>\<open>includeDetectedProfiles\<close>, is
    \<^verbatim>\<open>undefined\<close> in every call that the class makes and is left out.
  \<^item> \<open>profilesSetting key\<close> and \<open>defaultProfileSetting key\<close>: the configuration values
    under \<^verbatim>\<open>TerminalSettingPrefix.Profiles + key\<close> and
    \<^verbatim>\<open>TerminalSettingPrefix.DefaultProfile + key\<close>; the first is an object, given by its
    entries.
  \<^item> \<open>terminalProfiles\<close>: the profiles the contribution service declares.
  \<^item> \<open>remoteEnvironment\<close>: the operating system of the remote environment, if there is one;
    \<open>isWindows\<close>, \<open>isMacintosh\<close>, \<open>isWeb\<close>, \<open>OS\<close>: the platform constants.
  \<^item> \<open>terminalProfileArgsMatch\<close>, \<open>terminalIconsEqual\<close>: the two comparison helpers of
    \<^verbatim>\<open>terminalProfiles.ts\<close>, which is not among the sources.
\<close>

record ('a, 'i) environment =
  primaryOffProcessTerminalService :: bool
  getProfiles :: "nat \<Rightarrow> (string \<times> config_value) list \<Rightarrow> string option
                    \<Rightarrow> failure + ('a, 'i) terminal_profile list"
  profilesSetting :: "string \<Rightarrow> (string \<times> config_value) list"
  defaultProfileSetting :: "string \<Rightarrow> string option"
  terminalProfiles :: "extension_terminal_profile list"
  remoteEnvironment :: "OperatingSystem option"
  isWindows :: bool
  isMacintosh :: bool
  isWeb :: bool
  OS :: OperatingSystem
  terminalProfileArgsMatch :: "'a \<Rightarrow> 'a \<Rightarrow> bool"
  terminalIconsEqual :: "'i \<Rightarrow> 'i \<Rightarrow> bool"

text \<open>
  \<^verbatim>\<open>AutoOpenBarrier\<close>: open or not, and the time in milliseconds after which it opens by
  itself.
\<close>

record barrier =
  isOpen :: bool
  autoOpenTimeMs :: nat

text \<open>
  The fields of the service (\<open>priv_x\<close> for the private field \<^verbatim>\<open>_x\<close>), and what the service
  has done to the outside:
  \<^item> \<open>fired\<close>: the payloads that \<^verbatim>\<open>_onDidChangeAvailableProfiles.fire\<close> was called with,
    oldest first;
  \<^item> \<open>refreshRequests\<close>: how many times the throttled \<^verbatim>\<open>refreshAvailableProfiles\<close> was
    called;
  \<^item> \<open>detectCalls\<close>: how many times the backend's \<^verbatim>\<open>getProfiles\<close> was called;
  \<^item> \<open>registeredConfiguration\<close>, \<open>refreshedActions\<close>: the last arguments of
    \<^verbatim>\<open>registerTerminalDefaultProfileConfiguration\<close> and \<^verbatim>\<open>refreshTerminalActions\<close>;
  \<^item> \<open>elapsedMs\<close>: the time since the constructor ran.
\<close>

record ('a, 'i, 'p) service =
  priv_ifNoProfilesTryAgain :: bool
  priv_primaryOffProcessTerminalService :: bool
  priv_webExtensionContributedProfileContextKey :: "bool option"
  priv_profilesReadyBarrier :: barrier
  priv_availableProfiles :: "('a, 'i) terminal_profile list option"
  priv_contributedProfiles :: "extension_terminal_profile list"
  priv_defaultProfileName :: "string option"
  priv_profileProviders :: "string \<rightharpoonup> (string \<rightharpoonup> 'p)"
  fired :: "('a, 'i) terminal_profile list list"
  refreshRequests :: nat
  detectCalls :: nat
  registeredConfiguration ::
    "(OperatingSystem \<times> ('a, 'i) terminal_profile list \<times> extension_terminal_profile list) option"
  refreshedActions :: "('a, 'i) terminal_profile list option"
  elapsedMs :: nat

subsection \<open>Code the service calls that is not among the sources\<close>

text \<open>
  Modelled from the spec: \<^verbatim>\<open>equals\<close> of \<^verbatim>\<open>vs/base/common/arrays\<close> is not among the
  sources. The spec has the new list compared with the previous snapshot by structural
  equality: the same length and, position by position, items that the given item equality
  accepts. A snapshot that is still \<^verbatim>\<open>undefined\<close> equals no list.
\<close>

fun equals :: "('x \<Rightarrow> 'x \<Rightarrow> bool) \<Rightarrow> 'x list option \<Rightarrow> 'x list option \<Rightarrow> bool" where
  "equals itemEquals (Some one) (Some other) = list_all2 itemEquals one other"
| "equals itemEquals None None = True"
| "equals itemEquals (Some one) None = False"
| "equals itemEquals None (Some other) = False"

text \<open>
  Modelled from the spec: \<^verbatim>\<open>AutoOpenBarrier\<close> of \<^verbatim>\<open>vs/base/common/async\<close> is not among
  the sources. The spec has it a gate that opens once, when \<^verbatim>\<open>open\<close> is called or when its
  timeout has elapsed, whichever is first, and that stays open; opening an open barrier does
  nothing; waiting on it resolves once it is open.
\<close>

definition AutoOpenBarrier :: "nat \<Rightarrow> barrier" where
  "AutoOpenBarrier autoOpenTimeMs' = \<lparr>isOpen = False, autoOpenTimeMs = autoOpenTimeMs'\<rparr>"

definition barrier_open :: "barrier \<Rightarrow> barrier" where
  "barrier_open b = b\<lparr>isOpen := True\<rparr>"

definition barrier_elapse :: "nat \<Rightarrow> barrier \<Rightarrow> barrier" where
  "barrier_elapse now b = (if autoOpenTimeMs b \<le> now then barrier_open b else b)"

text \<open>
  Modelled from the spec: the \<^verbatim>\<open>throttle\<close> decorator of \<^verbatim>\<open>vs/base/common/decorators\<close> is
  not among the sources. The spec has a throttled call start a refresh cycle at once or
  later, or coalesce it with a pending one. The call is counted here; the cycle that it leads
  to is \<open>refreshAvailableProfilesNow\<close> below, run as a step of its own.
\<close>

definition refreshAvailableProfiles :: "('a, 'i, 'p) service \<Rightarrow> ('a, 'i, 'p) service" where
  "refreshAvailableProfiles s = s\<lparr>refreshRequests := Suc (refreshRequests s)\<rparr>"

subsection \<open>The service\<close>

text \<open>JavaScript's truthiness of an optional string: \<^verbatim>\<open>undefined\<close> and \<^verbatim>\<open>""\<close> are falsy.\<close>

fun truthy :: "string option \<Rightarrow> bool" where
  "truthy None = False"
| "truthy (Some str) = (str \<noteq> [])"

text \<open>The field initialisers and the constructor, which ends by asking for a refresh.\<close>

definition constructor :: "('a, 'i) environment \<Rightarrow> ('a, 'i, 'p) service" where
  "constructor env = refreshAvailableProfiles
     \<lparr>priv_ifNoProfilesTryAgain = True,
      priv_primaryOffProcessTerminalService = primaryOffProcessTerminalService env,
      priv_webExtensionContributedProfileContextKey = None,
      priv_profilesReadyBarrier = AutoOpenBarrier 5000,
      priv_availableProfiles = None,
      priv_contributedProfiles = [],
      priv_defaultProfileName = None,
      priv_profileProviders = Map.empty,
      fired = [],
      refreshRequests = 0,
      detectCalls = 0,
      registeredConfiguration = None,
      refreshedActions = None,
      elapsedMs = 0\<rparr>"

text \<open>\<^verbatim>\<open>get profilesReady\<close>: the promise resolves once the barrier is open.\<close>

definition profilesReady :: "('a, 'i, 'p) service \<Rightarrow> bool" where
  "profilesReady s = isOpen (priv_profilesReadyBarrier s)"

text \<open>The two getters: the value returned and the service afterwards.\<close>

definition availableProfiles ::
  "('a, 'i, 'p) service \<Rightarrow> ('a, 'i) terminal_profile list \<times> ('a, 'i, 'p) service" where
  "availableProfiles s =
     (let s1 = refreshAvailableProfiles s
      in (case priv_availableProfiles s1 of None \<Rightarrow> [] | Some ps \<Rightarrow> ps, s1))"

definition contributedProfiles ::
  "('a, 'i, 'p) service \<Rightarrow> extension_terminal_profile list \<times> ('a, 'i, 'p) service" where
  "contributedProfiles s = (priv_contributedProfiles s, s)"

definition getDefaultProfileName ::
  "('a, 'i, 'p) service \<Rightarrow> (failure + string) \<times> ('a, 'i, 'p) service" where
  "getDefaultProfileName s =
     (if \<not> truthy (priv_defaultProfileName s) then (Inl NoDefaultProfile, s)
      else (case priv_defaultProfileName s of
              Some name \<Rightarrow> (Inr name, s)
            | None \<Rightarrow> (Inl NoDefaultProfile, s)))"

definition getPlatformKey :: "('a, 'i) environment \<Rightarrow> string" where
  "getPlatformKey env =
     (case remoteEnvironment env of
        Some os \<Rightarrow>
          (if os = Windows then ''windows'' else (if os = Macintosh then ''osx'' else ''linux''))
      | None \<Rightarrow>
          (if isWindows env then ''windows'' else (if isMacintosh env then ''osx'' else ''linux'')))"

definition detectProfiles ::
  "('a, 'i) environment \<Rightarrow> ('a, 'i, 'p) service
     \<Rightarrow> (failure + ('a, 'i) terminal_profile list) \<times> ('a, 'i, 'p) service" where
  "detectProfiles env s =
     (if \<not> priv_primaryOffProcessTerminalService s
      then (Inr (case priv_availableProfiles s of None \<Rightarrow> [] | Some ps \<Rightarrow> ps), s)
      else
        (let platform = getPlatformKey env;
             s1 = s\<lparr>priv_defaultProfileName := defaultProfileSetting env platform\<rparr>
         in (getProfiles env (detectCalls s1) (profilesSetting env platform)
               (priv_defaultProfileName s1),
             s1\<lparr>detectCalls := Suc (detectCalls s1)\<rparr>)))"

definition profilesEqual ::
  "('a, 'i) environment \<Rightarrow> ('a, 'i) terminal_profile \<Rightarrow> ('a, 'i) terminal_profile \<Rightarrow> bool" where
  "profilesEqual env one other =
     (profileName one = profileName other \<and>
      terminalProfileArgsMatch env (args one) (args other) \<and>
      color one = color other \<and>
      terminalIconsEqual env (icon one) (icon other) \<and>
      isAutoDetected one = isAutoDetected other \<and>
      isDefault one = isDefault other \<and>
      overrideName one = overrideName other \<and>
      path one = path other)"

definition contributedProfilesEqual ::
  "extension_terminal_profile \<Rightarrow> extension_terminal_profile \<Rightarrow> bool" where
  "contributedProfilesEqual one other =
     (extensionIdentifier one = extensionIdentifier other \<and>
      color_c one = color_c other \<and>
      strictEquals (icon_c one) (icon_c other) \<and>
      id_c one = id_c other \<and>
      title one = title other)"

definition updateContributedProfiles ::
  "('a, 'i) environment \<Rightarrow> ('a, 'i, 'p) service \<Rightarrow> bool \<times> ('a, 'i, 'p) service" where
  "updateContributedProfiles env s =
     (let platformKey = getPlatformKey env;
          configProfiles = profilesSetting env platformKey;
          excludedContributedProfiles =
            map fst (filter (\<lambda>(profileName, v). v = Null) configProfiles);
          filteredContributedProfiles =
            filter (\<lambda>p. title p \<notin> set excludedContributedProfiles) (terminalProfiles env);
          contributedProfilesChanged =
            (\<not> equals contributedProfilesEqual (Some filteredContributedProfiles)
                 (Some (priv_contributedProfiles s)))
      in (contributedProfilesChanged, s\<lparr>priv_contributedProfiles := filteredContributedProfiles\<rparr>))"

definition updateWebContextKey ::
  "('a, 'i) environment \<Rightarrow> ('a, 'i, 'p) service \<Rightarrow> ('a, 'i, 'p) service" where
  "updateWebContextKey env s =
     s\<lparr>priv_webExtensionContributedProfileContextKey :=
         Some (isWeb env \<and> length (priv_contributedProfiles s) > 0)\<rparr>"

definition refreshPlatformConfig ::
  "('a, 'i) environment \<Rightarrow> ('a, 'i) terminal_profile list \<Rightarrow> ('a, 'i, 'p) service
     \<Rightarrow> ('a, 'i, 'p) service" where
  "refreshPlatformConfig env profiles s =
     s\<lparr>registeredConfiguration :=
         Some (case remoteEnvironment env of Some os \<Rightarrow> os | None \<Rightarrow> OS env,
               profiles, priv_contributedProfiles s),
       refreshedActions := Some profiles\<rparr>"

text \<open>
  Lines 109 to 117 of \<^verbatim>\<open>_refreshAvailableProfilesNow\<close>: compare, and commit if something
  changed. \<open>profiles\<close> is the local constant of the invocation that runs these lines.
\<close>

definition compareAndCommit ::
  "('a, 'i) environment \<Rightarrow> ('a, 'i) terminal_profile list \<Rightarrow> ('a, 'i, 'p) service
     \<Rightarrow> ('a, 'i, 'p) service" where
  "compareAndCommit env profiles s =
     (let profilesChanged =
            (\<not> equals (profilesEqual env) (Some profiles) (priv_availableProfiles s));
          (contributedProfilesChanged, s1) = updateContributedProfiles env s
      in if profilesChanged \<or> contributedProfilesChanged
         then
           (let s2 = s1\<lparr>priv_availableProfiles := Some profiles\<rparr>;
                s3 = s2\<lparr>fired := fired s2 @ [profiles]\<rparr>;
                s4 = s3\<lparr>priv_profilesReadyBarrier := barrier_open (priv_profilesReadyBarrier s3)\<rparr>;
                s5 = updateWebContextKey env s4
            in refreshPlatformConfig env profiles s5)
         else s1)"

text \<open>
  \<^verbatim>\<open>_refreshAvailableProfilesNow\<close>. The first component of the result is the error that the
  returned promise is rejected with, if any. The method calls itself only with the one-shot
  flag cleared, so it calls itself at most once.
\<close>

function refreshAvailableProfilesNow ::
  "('a, 'i) environment \<Rightarrow> ('a, 'i, 'p) service \<Rightarrow> failure option \<times> ('a, 'i, 'p) service" where
  "refreshAvailableProfilesNow env s =
     (case detectProfiles env s of
        (Inl e, s1) \<Rightarrow> (Some e, s1)
      | (Inr profiles, s1) \<Rightarrow>
          (case (if profiles = [] \<and> priv_ifNoProfilesTryAgain s1
                 then refreshAvailableProfilesNow env (s1\<lparr>priv_ifNoProfilesTryAgain := False\<rparr>)
                 else (None, s1)) of
             (Some e, s2) \<Rightarrow> (Some e, s2)
           | (None, s2) \<Rightarrow> (None, compareAndCommit env profiles s2)))"
  by pat_completeness auto

termination
proof (relation "measure (\<lambda>(env, s). if priv_ifNoProfilesTryAgain s then 1 else 0)")
  show "wf (measure (\<lambda>(env::('a, 'i) environment, s::('a, 'i, 'p) service).
              if priv_ifNoProfilesTryAgain s then 1 else 0))"
    by simp
next
  fix env :: "('a, 'i) environment" and s s1 :: "('a, 'i, 'p) service"
    and r :: "failure + ('a, 'i) terminal_profile list" and profiles
  assume "(r, s1) = detectProfiles env s" "r = Inr profiles"
    "profiles = [] \<and> priv_ifNoProfilesTryAgain s1"
  then have "priv_ifNoProfilesTryAgain s"
    by (auto simp: detectProfiles_def Let_def split: if_splits)
  then show "((env, s1\<lparr>priv_ifNoProfilesTryAgain := False\<rparr>), (env, s))
      \<in> measure (\<lambda>(env, s). if priv_ifNoProfilesTryAgain s then 1 else 0)"
    by simp
qed

declare refreshAvailableProfilesNow.simps [simp del]

definition getContributedProfileProvider ::
  "('a, 'i, 'p) service \<Rightarrow> string \<Rightarrow> string \<Rightarrow> 'p option" where
  "getContributedProfileProvider s extensionIdentifier' id' =
     (case priv_profileProviders s extensionIdentifier' of
        None \<Rightarrow> None
      | Some extMap \<Rightarrow> extMap id')"

text \<open>
  \<^verbatim>\<open>registerTerminalProfileProvider\<close> returns the service and the disposable; the disposable
  is the function that \<^verbatim>\<open>toDisposable\<close> wraps, to be applied to the service as it is when
  \<^verbatim>\<open>dispose\<close> is called.
\<close>

definition registerTerminalProfileProvider ::
  "('a, 'i, 'p) service \<Rightarrow> string \<Rightarrow> string \<Rightarrow> 'p
     \<Rightarrow> ('a, 'i, 'p) service \<times> (('a, 'i, 'p) service \<Rightarrow> ('a, 'i, 'p) service)" where
  "registerTerminalProfileProvider s extensionIdentifier' id' profileProvider =
     (let extMap = (case priv_profileProviders s extensionIdentifier' of
                      None \<Rightarrow> Map.empty
                    | Some m \<Rightarrow> m);
          s1 = s\<lparr>priv_profileProviders :=
                   (priv_profileProviders s)(extensionIdentifier' \<mapsto> extMap(id' \<mapsto> profileProvider))\<rparr>
      in (s1, \<lambda>t. t\<lparr>priv_profileProviders := (priv_profileProviders t)(id' := None)\<rparr>))"

definition getContributedDefaultProfile ::
  "('a, 'i) environment \<Rightarrow> ('a, 'i, 'p) service \<Rightarrow> shell_launch_config option
     \<Rightarrow> extension_terminal_profile option" where
  "getContributedDefaultProfile env s shellLaunchConfig =
     (case shellLaunchConfig of
        None \<Rightarrow> None
      | Some slc \<Rightarrow>
          (if \<not> truthy (extHostTerminalId slc) \<and> executable slc = None
           then
             (let key = getPlatformKey env;
                  defaultProfileName = defaultProfileSetting env key
              in List.find (\<lambda>p. Some (title p) = defaultProfileName)
                   (fst (contributedProfiles s)))
           else None))"

text \<open>
  Modelled from the spec: the timer of \<^verbatim>\<open>AutoOpenBarrier\<close> is not among the sources. \<open>ms\<close>
  milliseconds pass, and the barrier opens if its timeout has elapsed by then.
\<close>

definition elapse :: "nat \<Rightarrow> ('a, 'i, 'p) service \<Rightarrow> ('a, 'i, 'p) service" where
  "elapse ms s =
     (let now = elapsedMs s + ms
      in s\<lparr>elapsedMs := now,
           priv_profilesReadyBarrier := barrier_elapse now (priv_profilesReadyBarrier s)\<rparr>)"

subsection \<open>Histories of calls\<close>

text \<open>
  What can happen to the service after its constructor: a refresh cycle that the throttle
  starts (with the collaborators as they are then), time passing, and the calls of the public
  methods that touch the service. \<open>Dispose e i p\<close> disposes of the handle that
  \<^verbatim>\<open>registerTerminalProfileProvider(e, i, p)\<close> returned.
\<close>

datatype ('a, 'i, 'p) operation =
    RefreshNow "('a, 'i) environment"
  | Elapse nat
  | GetAvailableProfiles
  | GetContributedProfiles
  | GetDefaultProfileName
  | Register string string 'p
  | Dispose string string 'p

fun step :: "('a, 'i, 'p) service \<Rightarrow> ('a, 'i, 'p) operation \<Rightarrow> ('a, 'i, 'p) service" where
  "step s (RefreshNow env) = snd (refreshAvailableProfilesNow env s)"
| "step s (Elapse ms) = elapse ms s"
| "step s GetAvailableProfiles = snd (availableProfiles s)"
| "step s GetContributedProfiles = snd (contributedProfiles s)"
| "step s GetDefaultProfileName = snd (getDefaultProfileName s)"
| "step s (Register e i p) = fst (registerTerminalProfileProvider s e i p)"
| "step s (Dispose e i p) = snd (registerTerminalProfileProvider s e i p) s"

definition run :: "('a, 'i, 'p) service \<Rightarrow> ('a, 'i, 'p) operation list \<Rightarrow> ('a, 'i, 'p) service" where
  "run s ops = foldl step s ops"

subsection \<open>The spec's words\<close>

text \<open>
  The contributed list as the spec describes it: the profiles of the contribution registry
  minus those whose title is set to \<^verbatim>\<open>null\<close> in the configuration.
\<close>

definition registryMinusNulled :: "('a, 'i) environment \<Rightarrow> extension_terminal_profile list" where
  "registryMinusNulled env =
     filter (\<lambda>p. (title p, Null) \<notin> set (profilesSetting env (getPlatformKey env)))
       (terminalProfiles env)"

text \<open>
  The freshly computed lists differ from the previous snapshot: the detected list \<open>ps\<close> from
  the available profiles, or the contributed list from the contributed profiles.
\<close>

definition differs ::
  "('a, 'i) environment \<Rightarrow> ('a, 'i) terminal_profile list \<Rightarrow> ('a, 'i, 'p) service \<Rightarrow> bool" where
  "differs env ps s =
     (\<not> equals (profilesEqual env) (Some ps) (priv_availableProfiles s) \<or>
      \<not> equals contributedProfilesEqual (Some (registryMinusNulled env))
           (Some (priv_contributedProfiles s)))"

text \<open>
  The one-shot flag is still set only while no empty list has been detected, so while the
  snapshot is not the empty list.
\<close>

definition flagUnused :: "('a, 'i, 'p) service \<Rightarrow> bool" where
  "flagUnused s = (\<not> priv_ifNoProfilesTryAgain s \<or> priv_availableProfiles s \<noteq> Some [])"

text \<open>
  A call left the cache as it was: the two lists, the events fired, the barrier, and the
  fields that only the constructor, the registry of providers and the clock write.
\<close>

definition untouched :: "('a, 'i, 'p) service \<Rightarrow> ('a, 'i, 'p) service \<Rightarrow> bool" where
  "untouched s t =
     (priv_availableProfiles t = priv_availableProfiles s \<and>
      priv_contributedProfiles t = priv_contributedProfiles s \<and>
      fired t = fired s \<and>
      priv_profilesReadyBarrier t = priv_profilesReadyBarrier s \<and>
      priv_webExtensionContributedProfileContextKey t
        = priv_webExtensionContributedProfileContextKey s \<and>
      registeredConfiguration t = registeredConfiguration s \<and>
      refreshedActions t = refreshedActions s \<and>
      priv_primaryOffProcessTerminalService t = priv_primaryOffProcessTerminalService s \<and>
      priv_profileProviders t = priv_profileProviders s \<and>
      refreshRequests t = refreshRequests s \<and>
      elapsedMs t = elapsedMs s)"

text \<open>
  Nothing has been committed yet: as long as no event has fired, there is no snapshot and no
  contributed profile.
\<close>

definition nothingCommitted :: "('a, 'i, 'p) service \<Rightarrow> bool" where
  "nothingCommitted s =
     (fired s \<noteq> [] \<or> (priv_availableProfiles s = None \<and> priv_contributedProfiles s = []))"

text \<open>
  The barrier follows the commits and the clock: it opens after 5000 milliseconds, and it is
  open exactly when an event has fired or that time has passed.
\<close>

definition barrierTracks :: "('a, 'i, 'p) service \<Rightarrow> bool" where
  "barrierTracks s =
     (autoOpenTimeMs (priv_profilesReadyBarrier s) = 5000 \<and>
      isOpen (priv_profilesReadyBarrier s) = (fired s \<noteq> [] \<or> 5000 \<le> elapsedMs s))"

subsection \<open>Examples\<close>

definition ProfileA :: "(string list, string) terminal_profile" where
  "ProfileA = \<lparr>profileName = ''bash'', args = [], color = None, icon = ''terminal-bash'',
     isAutoDetected = Some True, isDefault = True, overrideName = None, path = ''/bin/bash''\<rparr>"

definition bashContributed :: extension_terminal_profile where
  "bashContributed = \<lparr>extensionIdentifier = ''vendor.shells'', color_c = None,
     icon_c = Str ''terminal'', id_c = ''shells.bash'', title = ''bash''\<rparr>"

definition fishContributed :: extension_terminal_profile where
  "fishContributed = \<lparr>extensionIdentifier = ''vendor.shells'', color_c = None,
     icon_c = Str ''terminal'', id_c = ''shells.fish'', title = ''fish''\<rparr>"

text \<open>A local Linux host whose backend always answers with \<open>[ProfileA]\<close>.\<close>

definition linuxHost :: "(string list, string) environment" where
  "linuxHost = \<lparr>primaryOffProcessTerminalService = True,
     getProfiles = (\<lambda>k profiles defaultProfileName. Inr [ProfileA]),
     profilesSetting = (\<lambda>key. []),
     defaultProfileSetting = (\<lambda>key. None),
     terminalProfiles = [],
     remoteEnvironment = None,
     isWindows = False, isMacintosh = False, isWeb = False, OS = Linux,
     terminalProfileArgsMatch = (=), terminalIconsEqual = (=)\<rparr>"

text \<open>The backend is not warmed up: it answers \<open>[]\<close> to the first call, \<open>[ProfileA]\<close> later.\<close>

definition warmingUp :: "(string list, string) environment" where
  "warmingUp = linuxHost\<lparr>getProfiles :=
     (\<lambda>k profiles defaultProfileName. if k = 0 then Inr [] else Inr [ProfileA])\<rparr>"

text \<open>The backend rejects every call.\<close>

definition brokenBackend :: "(string list, string) environment" where
  "brokenBackend = linuxHost\<lparr>getProfiles :=
     (\<lambda>k profiles defaultProfileName. Inl (BackendFailure ''pty host unresponsive''))\<rparr>"

text \<open>
  \<^verbatim>\<open>defaultProfile.linux\<close> is \<^verbatim>\<open>"bash"\<close>, respectively \<^verbatim>\<open>"zsh"\<close>; in the third
  environment it is \<^verbatim>\<open>"zsh"\<close> and the backend rejects every call.
\<close>

definition bashDefault :: "(string list, string) environment" where
  "bashDefault = linuxHost\<lparr>defaultProfileSetting :=
     (\<lambda>key. if key = ''linux'' then Some ''bash'' else None)\<rparr>"

definition zshDefault :: "(string list, string) environment" where
  "zshDefault = linuxHost\<lparr>defaultProfileSetting :=
     (\<lambda>key. if key = ''linux'' then Some ''zsh'' else None)\<rparr>"

definition brokenZsh :: "(string list, string) environment" where
  "brokenZsh = zshDefault\<lparr>getProfiles :=
     (\<lambda>k profiles defaultProfileName. Inl (BackendFailure ''pty host unresponsive''))\<rparr>"

text \<open>
  An extension contributes \<open>bash\<close> and \<open>fish\<close>; \<^verbatim>\<open>defaultProfile.linux\<close> is \<^verbatim>\<open>"bash"\<close>; in the
  second environment \<^verbatim>\<open>profiles.linux\<close> moreover sets \<open>fish\<close> to \<^verbatim>\<open>null\<close>.
\<close>

definition withContributions :: "(string list, string) environment" where
  "withContributions = bashDefault\<lparr>terminalProfiles := [bashContributed, fishContributed]\<rparr>"

definition fishNulled :: "(string list, string) environment" where
  "fishNulled = withContributions\<lparr>profilesSetting :=
     (\<lambda>key. if key = ''linux'' then [(''fish'', Null), (''zsh'', Json ''{path: /bin/zsh}'')]
             else [])\<rparr>"

text \<open>
  An extension contributes \<open>bash\<close> with an icon that is an object; after a reload the registry
  declares the same profile with a new icon object of the same content.
\<close>

definition bashIconLoaded :: extension_terminal_profile where
  "bashIconLoaded = bashContributed\<lparr>icon_c :=
     Object 1 ''{light: bash-light.svg, dark: bash-dark.svg}''\<rparr>"

definition bashIconReloaded :: extension_terminal_profile where
  "bashIconReloaded = bashContributed\<lparr>icon_c :=
     Object 2 ''{light: bash-light.svg, dark: bash-dark.svg}''\<rparr>"

definition iconLoaded :: "(string list, string) environment" where
  "iconLoaded = linuxHost\<lparr>terminalProfiles := [bashIconLoaded]\<rparr>"

definition iconReloaded :: "(string list, string) environment" where
  "iconReloaded = linuxHost\<lparr>terminalProfiles := [bashIconReloaded]\<rparr>"

text \<open>A service of the example types, just constructed.\<close>

definition fresh :: "(string list, string) environment \<Rightarrow> (string list, string, nat) service" where
  "fresh env = constructor env"

section \<open>Properties\<close>

subsection \<open>One invocation at a time\<close>

lemma refresh_fail:
  "detectProfiles env s = (Inl e, s1) \<Longrightarrow> refreshAvailableProfilesNow env s = (Some e, s1)"
  by (subst refreshAvailableProfilesNow.simps) simp

lemma refresh_once:
  "detectProfiles env s = (Inr ps, s1) \<Longrightarrow> \<not> (ps = [] \<and> priv_ifNoProfilesTryAgain s1) \<Longrightarrow>
   refreshAvailableProfilesNow env s = (None, compareAndCommit env ps s1)"
  by (subst refreshAvailableProfilesNow.simps) auto

lemma refresh_retry:
  "detectProfiles env s = (Inr [], s1) \<Longrightarrow> priv_ifNoProfilesTryAgain s1 \<Longrightarrow>
   refreshAvailableProfilesNow env s =
     (case refreshAvailableProfilesNow env (s1\<lparr>priv_ifNoProfilesTryAgain := False\<rparr>) of
        (Some e, s2) \<Rightarrow> (Some e, s2)
      | (None, s2) \<Rightarrow> (None, compareAndCommit env [] s2))"
  by (subst refreshAvailableProfilesNow.simps) simp

lemma detectProfiles_keeps:
  assumes "detectProfiles env s = (r, s1)"
  shows "priv_availableProfiles s1 = priv_availableProfiles s"
    and "priv_contributedProfiles s1 = priv_contributedProfiles s"
    and "fired s1 = fired s"
    and "priv_profilesReadyBarrier s1 = priv_profilesReadyBarrier s"
    and "priv_ifNoProfilesTryAgain s1 = priv_ifNoProfilesTryAgain s"
    and "priv_primaryOffProcessTerminalService s1 = priv_primaryOffProcessTerminalService s"
    and "priv_profileProviders s1 = priv_profileProviders s"
    and "refreshRequests s1 = refreshRequests s"
    and "elapsedMs s1 = elapsedMs s"
  using assms by (auto simp: detectProfiles_def Let_def split: if_splits)

text \<open>With the one-shot flag cleared, a cycle is one detection and one comparison.\<close>

lemma refresh_flag_cleared:
  assumes "\<not> priv_ifNoProfilesTryAgain s"
  shows "refreshAvailableProfilesNow env s =
     (case detectProfiles env s of
        (Inl e, s1) \<Rightarrow> (Some e, s1)
      | (Inr ps, s1) \<Rightarrow> (None, compareAndCommit env ps s1))"
proof (cases "detectProfiles env s")
  case (Pair r s1)
  then have flag: "\<not> priv_ifNoProfilesTryAgain s1"
    using assms detectProfiles_keeps(5) [of env s r s1] by simp
  show ?thesis
  proof (cases r)
    case (Inl e)
    with Pair show ?thesis by (simp add: refresh_fail)
  next
    case (Inr ps)
    with Pair flag show ?thesis by (simp add: refresh_once)
  qed
qed

text \<open>
  With the flag set and an empty first answer, a cycle is two detections; if the second one
  succeeds, its answer is compared first and the empty first answer after it.
\<close>

lemma refresh_retried:
  assumes "detectProfiles env s = (Inr [], s1)" and "priv_ifNoProfilesTryAgain s"
  shows "refreshAvailableProfilesNow env s =
     (case detectProfiles env (s1\<lparr>priv_ifNoProfilesTryAgain := False\<rparr>) of
        (Inl e, s2) \<Rightarrow> (Some e, s2)
      | (Inr ps, s2) \<Rightarrow> (None, compareAndCommit env [] (compareAndCommit env ps s2)))"
proof -
  have "priv_ifNoProfilesTryAgain s1"
    using assms detectProfiles_keeps(5) [of env s "Inr []" s1] by simp
  then have "refreshAvailableProfilesNow env s =
     (case refreshAvailableProfilesNow env (s1\<lparr>priv_ifNoProfilesTryAgain := False\<rparr>) of
        (Some e, s2) \<Rightarrow> (Some e, s2)
      | (None, s2) \<Rightarrow> (None, compareAndCommit env [] s2))"
    using assms(1) by (rule refresh_retry [rotated])
  then show ?thesis
    by (cases "detectProfiles env (s1\<lparr>priv_ifNoProfilesTryAgain := False\<rparr>)")
      (auto simp: refresh_flag_cleared split: sum.splits)
qed

subsection \<open>Comparing and committing\<close>

lemma strictEquals_refl: "strictEquals v v"
  by (cases v) simp_all

lemma equals_contributed_refl: "equals contributedProfilesEqual (Some xs) (Some xs)"
  by (simp add: contributedProfilesEqual_def strictEquals_refl list_all2_same)

lemma equals_empty: "equals itemEquals (Some []) x = (x = Some [])"
  by (cases x) auto

lemma excluded_titles:
  "t \<in> set (map fst (filter (\<lambda>(profileName, v). v = Null) cfg)) = ((t, Null) \<in> set cfg)"
  by (induction cfg) auto

lemma updateContributedProfiles_eq:
  "updateContributedProfiles env s =
     (\<not> equals contributedProfilesEqual (Some (registryMinusNulled env))
          (Some (priv_contributedProfiles s)),
      s\<lparr>priv_contributedProfiles := registryMinusNulled env\<rparr>)"
  by (simp add: updateContributedProfiles_def registryMinusNulled_def Let_def excluded_titles
      del: equals.simps set_map)

lemma compareAndCommit_eq:
  "compareAndCommit env ps s =
     (if differs env ps s
      then s\<lparr>priv_contributedProfiles := registryMinusNulled env,
             priv_availableProfiles := Some ps,
             fired := fired s @ [ps],
             priv_profilesReadyBarrier := barrier_open (priv_profilesReadyBarrier s),
             priv_webExtensionContributedProfileContextKey :=
               Some (isWeb env \<and> registryMinusNulled env \<noteq> []),
             registeredConfiguration :=
               Some (case remoteEnvironment env of Some os \<Rightarrow> os | None \<Rightarrow> OS env,
                     ps, registryMinusNulled env),
             refreshedActions := Some ps\<rparr>
      else s\<lparr>priv_contributedProfiles := registryMinusNulled env\<rparr>)"
  by (simp add: compareAndCommit_def updateContributedProfiles_eq differs_def Let_def
      updateWebContextKey_def refreshPlatformConfig_def del: equals.simps)

lemma compareAndCommit_fired:
  "fired (compareAndCommit env ps s) = (if differs env ps s then fired s @ [ps] else fired s)"
  by (simp add: compareAndCommit_eq)

lemma compareAndCommit_available:
  "priv_availableProfiles (compareAndCommit env ps s) =
     (if differs env ps s then Some ps else priv_availableProfiles s)"
  by (simp add: compareAndCommit_eq)

lemma compareAndCommit_contributed:
  "priv_contributedProfiles (compareAndCommit env ps s) = registryMinusNulled env"
  by (simp add: compareAndCommit_eq)

lemma compareAndCommit_barrier:
  "priv_profilesReadyBarrier (compareAndCommit env ps s) =
     (if differs env ps s then barrier_open (priv_profilesReadyBarrier s)
      else priv_profilesReadyBarrier s)"
  by (simp add: compareAndCommit_eq)

lemma compareAndCommit_keeps:
  "priv_ifNoProfilesTryAgain (compareAndCommit env ps s) = priv_ifNoProfilesTryAgain s"
  "priv_defaultProfileName (compareAndCommit env ps s) = priv_defaultProfileName s"
  "priv_primaryOffProcessTerminalService (compareAndCommit env ps s)
     = priv_primaryOffProcessTerminalService s"
  "priv_profileProviders (compareAndCommit env ps s) = priv_profileProviders s"
  "detectCalls (compareAndCommit env ps s) = detectCalls s"
  "refreshRequests (compareAndCommit env ps s) = refreshRequests s"
  "elapsedMs (compareAndCommit env ps s) = elapsedMs s"
  by (simp_all add: compareAndCommit_eq)

subsection \<open>The shapes of a cycle\<close>

lemma detectProfiles_untouched: "detectProfiles env s = (r, s1) \<Longrightarrow> untouched s s1"
  by (auto simp: detectProfiles_def untouched_def Let_def split: if_splits)

lemma untouched_flag [simp]: "untouched s (t\<lparr>priv_ifNoProfilesTryAgain := b\<rparr>) = untouched s t"
  by (simp add: untouched_def)

lemma untouched_trans: "untouched s t \<Longrightarrow> untouched t u \<Longrightarrow> untouched s u"
  by (simp add: untouched_def)

text \<open>
  A cycle fails without having touched the cache, or it compares one answer, or it compares
  the second answer and then the empty first one.
\<close>

lemma refresh_cases [case_names failed compared retried]:
  obtains
    (failed) e s1 where "refreshAvailableProfilesNow env s = (Some e, s1)" and "untouched s s1"
  | (compared) ps s1 where "refreshAvailableProfilesNow env s = (None, compareAndCommit env ps s1)"
      and "detectProfiles env s = (Inr ps, s1)"
      and "\<not> (ps = [] \<and> priv_ifNoProfilesTryAgain s)"
  | (retried) ps s1 s2 where
      "refreshAvailableProfilesNow env s
         = (None, compareAndCommit env [] (compareAndCommit env ps s2))"
      and "detectProfiles env s = (Inr [], s1)"
      and "detectProfiles env (s1\<lparr>priv_ifNoProfilesTryAgain := False\<rparr>) = (Inr ps, s2)"
      and "priv_ifNoProfilesTryAgain s"
proof (cases "detectProfiles env s")
  case (Pair r s1)
  note first = this
  have flag: "priv_ifNoProfilesTryAgain s1 = priv_ifNoProfilesTryAgain s"
    using first by (rule detectProfiles_keeps)
  show thesis
  proof (cases r)
    case (Inl e)
    with first failed show thesis
      by (simp add: refresh_fail detectProfiles_untouched)
  next
    case (Inr ps)
    show thesis
    proof (cases "ps = [] \<and> priv_ifNoProfilesTryAgain s")
      case False
      with first Inr flag compared show thesis
        by (simp add: refresh_once)
    next
      case True
      then have d: "detectProfiles env s = (Inr [], s1)" and f: "priv_ifNoProfilesTryAgain s"
        using first Inr by simp_all
      let ?t = "s1\<lparr>priv_ifNoProfilesTryAgain := False\<rparr>"
      have st: "untouched s ?t"
        using d by (simp add: detectProfiles_untouched)
      show thesis
      proof (cases "detectProfiles env ?t")
        case (Pair r2 s2)
        then have "untouched ?t s2" by (rule detectProfiles_untouched)
        with st have u: "untouched s s2" by (rule untouched_trans)
        show thesis
        proof (cases r2)
          case (Inl e)
          with Pair d f have "refreshAvailableProfilesNow env s = (Some e, s2)"
            by (simp add: refresh_retried)
          with u failed show thesis by simp
        next
          case (Inr ps2)
          with Pair d f have "refreshAvailableProfilesNow env s
              = (None, compareAndCommit env [] (compareAndCommit env ps2 s2))"
            by (simp add: refresh_retried)
          with Pair Inr d f retried show thesis by simp
        qed
      qed
    qed
  qed
qed

subsection \<open>Evaluating the examples\<close>

lemmas example_defs =
  fresh_def constructor_def refreshAvailableProfiles_def AutoOpenBarrier_def
  linuxHost_def warmingUp_def brokenBackend_def bashDefault_def zshDefault_def brokenZsh_def
  withContributions_def fishNulled_def ProfileA_def bashContributed_def fishContributed_def
  bashIconLoaded_def bashIconReloaded_def iconLoaded_def iconReloaded_def

lemmas method_defs =
  detectProfiles_def getPlatformKey_def compareAndCommit_def updateContributedProfiles_def
  updateWebContextKey_def refreshPlatformConfig_def barrier_open_def profilesEqual_def
  contributedProfilesEqual_def Let_def

subsection \<open>The retry on an empty first answer\<close>

text \<open>
  C1 (zero-result retry). The claim: on a service just constructed, when the backend answers
  \<open>[]\<close> to the first detection and \<open>[ProfileA]\<close> to the second, one refresh cycle makes
  exactly one extra detection, commits \<open>[ProfileA]\<close> and fires exactly one change event.

  What the method does there: it detects twice, and the nested invocation commits the second
  answer and fires; then the outer invocation goes on with its own constant \<open>profiles\<close>, the
  empty first answer, finds it different from the snapshot just committed, commits it and
  fires again. For every non-empty second answer \<open>ps\<close> the cycle ends with the empty list as
  the snapshot and with the two events \<open>ps\<close> and \<open>[]\<close>.
\<close>

theorem retried_cycle_ends_on_the_empty_list:
  assumes "primaryOffProcessTerminalService env"
    and "getProfiles env 0 (profilesSetting env (getPlatformKey env))
           (defaultProfileSetting env (getPlatformKey env)) = Inr []"
    and "getProfiles env 1 (profilesSetting env (getPlatformKey env))
           (defaultProfileSetting env (getPlatformKey env)) = Inr ps"
    and "ps \<noteq> []"
    and "refreshAvailableProfilesNow env (constructor env) = (r, s')"
  shows "r = None \<and> detectCalls s' = 2 \<and> priv_availableProfiles s' = Some [] \<and>
         fired s' = [ps, []]"
proof -
  let ?key = "getPlatformKey env"
  let ?c = "constructor env :: ('a, 'b, 'c) service"
  let ?s1 = "?c\<lparr>priv_defaultProfileName := defaultProfileSetting env ?key, detectCalls := 1\<rparr>"
  let ?s2 = "?s1\<lparr>priv_ifNoProfilesTryAgain := False, detectCalls := 2\<rparr>"
  have c: "priv_primaryOffProcessTerminalService ?c" "priv_ifNoProfilesTryAgain ?c"
    "detectCalls ?c = 0" "priv_availableProfiles ?c = None" "fired ?c = []"
    using assms(1) by (simp_all add: constructor_def refreshAvailableProfiles_def)
  have d1: "detectProfiles env ?c = (Inr [], ?s1)"
    using c assms(2) by (simp add: detectProfiles_def Let_def)
  have d2: "detectProfiles env (?s1\<lparr>priv_ifNoProfilesTryAgain := False\<rparr>) = (Inr ps, ?s2)"
    using c assms(3) by (simp add: detectProfiles_def Let_def)
  have "refreshAvailableProfilesNow env ?c
      = (None, compareAndCommit env [] (compareAndCommit env ps ?s2))"
    using d1 c(2) d2 by (simp add: refresh_retried)
  then have r: "r = None" and s': "s' = compareAndCommit env [] (compareAndCommit env ps ?s2)"
    using assms(5) by simp_all
  have first: "differs env ps ?s2"
    using c by (simp add: differs_def)
  have second: "differs env [] (compareAndCommit env ps ?s2)"
    using first assms(4) by (simp add: differs_def compareAndCommit_available)
  show ?thesis
    using first second c
    by (simp add: r s' compareAndCommit_fired compareAndCommit_available compareAndCommit_keeps)
qed

theorem retried_cycle_ends_on_the_empty_list_witness:
  "primaryOffProcessTerminalService warmingUp \<and>
   getProfiles warmingUp 0 (profilesSetting warmingUp (getPlatformKey warmingUp))
      (defaultProfileSetting warmingUp (getPlatformKey warmingUp)) = Inr [] \<and>
   getProfiles warmingUp 1 (profilesSetting warmingUp (getPlatformKey warmingUp))
      (defaultProfileSetting warmingUp (getPlatformKey warmingUp)) = Inr [ProfileA] \<and>
   [ProfileA] \<noteq> [] \<and>
   fst (refreshAvailableProfilesNow warmingUp (fresh warmingUp)) = None \<and>
   detectCalls (snd (refreshAvailableProfilesNow warmingUp (fresh warmingUp))) = 2 \<and>
   priv_availableProfiles (snd (refreshAvailableProfilesNow warmingUp (fresh warmingUp))) = Some [] \<and>
   fired (snd (refreshAvailableProfilesNow warmingUp (fresh warmingUp))) = [[ProfileA], []]"
proof -
  let ?r = "refreshAvailableProfilesNow warmingUp (fresh warmingUp)"
  have h: "primaryOffProcessTerminalService warmingUp"
    "getProfiles warmingUp 0 (profilesSetting warmingUp (getPlatformKey warmingUp))
      (defaultProfileSetting warmingUp (getPlatformKey warmingUp)) = Inr []"
    "getProfiles warmingUp 1 (profilesSetting warmingUp (getPlatformKey warmingUp))
      (defaultProfileSetting warmingUp (getPlatformKey warmingUp)) = Inr [ProfileA]"
    "[ProfileA] \<noteq> []"
    by (simp_all add: warmingUp_def linuxHost_def)
  have run: "refreshAvailableProfilesNow warmingUp (constructor warmingUp) = (fst ?r, snd ?r)"
    by (simp add: fresh_def)
  show ?thesis
    using h retried_cycle_ends_on_the_empty_list [OF h run] by simp
qed

subsection \<open>Disposing of a provider registration\<close>

text \<open>
  C3 (provider disposal). The claim: disposing of the handle that
  \<^verbatim>\<open>registerTerminalProfileProvider(e, i, p)\<close> returned removes that registration, so that
  \<^verbatim>\<open>getContributedProfileProvider(e, i)\<close> returns nothing, and removes no registration of
  another extension.

  What the handle does: it deletes the key \<open>i\<close>, the provider id, from the outer map, whose
  keys are extension identifiers. When \<open>e\<close> and \<open>i\<close> differ, the registration is still
  there after the disposal, and every provider of an extension whose identifier is \<open>i\<close> is
  gone.
\<close>

theorem dispose_deletes_by_provider_id:
  assumes "extensionIdentifier' \<noteq> id'"
    and "registerTerminalProfileProvider s extensionIdentifier' id' profileProvider = (s1, dispose)"
  shows "getContributedProfileProvider (dispose s1) extensionIdentifier' id' = Some profileProvider \<and>
         (\<forall>other. getContributedProfileProvider (dispose s1) id' other = None)"
  using assms
  by (auto simp: registerTerminalProfileProvider_def getContributedProfileProvider_def Let_def)

theorem dispose_deletes_by_provider_id_witness:
  "''vendor.shells'' \<noteq> ''shells.bash'' \<and>
   getContributedProfileProvider
     (run (fresh linuxHost) [Register ''shells.bash'' ''zsh'' 7,
        Register ''vendor.shells'' ''shells.bash'' 3])
     ''shells.bash'' ''zsh'' = Some 7 \<and>
   getContributedProfileProvider
     (run (fresh linuxHost) [Register ''shells.bash'' ''zsh'' 7,
        Register ''vendor.shells'' ''shells.bash'' 3, Dispose ''vendor.shells'' ''shells.bash'' 3])
     ''vendor.shells'' ''shells.bash'' = Some 3 \<and>
   getContributedProfileProvider
     (run (fresh linuxHost) [Register ''shells.bash'' ''zsh'' 7,
        Register ''vendor.shells'' ''shells.bash'' 3, Dispose ''vendor.shells'' ''shells.bash'' 3])
     ''shells.bash'' ''zsh'' = None"
proof -
  let ?s = "run (fresh linuxHost) [Register ''shells.bash'' ''zsh'' 7]"
  let ?r = "registerTerminalProfileProvider ?s ''vendor.shells'' ''shells.bash'' 3"
  have ne: "''vendor.shells'' \<noteq> ''shells.bash''" by simp
  have reg: "?r = (fst ?r, snd ?r)" by simp
  have same: "snd (registerTerminalProfileProvider (fst ?r) ''vendor.shells'' ''shells.bash'' 3)
     = snd ?r"
    by (simp add: registerTerminalProfileProvider_def Let_def)
  have before: "getContributedProfileProvider (fst ?r) ''shells.bash'' ''zsh'' = Some 7"
    by (simp add: run_def registerTerminalProfileProvider_def getContributedProfileProvider_def
        Let_def example_defs)
  show ?thesis
    using dispose_deletes_by_provider_id [OF ne reg] ne before same
    by (simp add: run_def)
qed

subsection \<open>The getters\<close>

text \<open>
  C5 (accessor side effect). The claim: every call of the getter \<^verbatim>\<open>availableProfiles\<close> and
  every call of the getter \<^verbatim>\<open>contributedProfiles\<close> asks for a throttled refresh before it
  returns the snapshot.

  The first getter does: it calls \<^verbatim>\<open>refreshAvailableProfiles\<close> and returns the snapshot, the
  empty list while there is none. The second getter returns the contributed list and does
  nothing else: the counterexample after the theorem shows that it leaves the count of
  refresh requests as it was. The theorem states what both getters do.
\<close>

theorem only_availableProfiles_asks_for_a_refresh:
  "snd (availableProfiles s) = refreshAvailableProfiles s \<and>
   refreshRequests (snd (availableProfiles s)) = Suc (refreshRequests s) \<and>
   fst (availableProfiles s) = (case priv_availableProfiles s of None \<Rightarrow> [] | Some ps \<Rightarrow> ps) \<and>
   contributedProfiles s = (priv_contributedProfiles s, s)"
  by (simp add: availableProfiles_def contributedProfiles_def refreshAvailableProfiles_def Let_def)

theorem contributedProfiles_asks_for_no_refresh:
  "\<not> refreshRequests (fresh linuxHost)
       < refreshRequests (snd (contributedProfiles (fresh linuxHost)))"
  by (simp add: contributedProfiles_def)

subsection \<open>The default profile name\<close>

text \<open>
  C6 (no default profile). The claim: \<^verbatim>\<open>getDefaultProfileName\<close> throws if and only if no
  default profile name has been resolved yet, that is, no detection pass has stored one;
  otherwise it returns the name and changes nothing.

  The method tests the field as it is now, and every detection pass on a backend overwrites
  the field with the configured value. So the method throws exactly when the field is
  \<^verbatim>\<open>undefined\<close> or the empty string, which is also the case after a pass that has read an
  unset setting, whatever an earlier pass had stored: the counterexample below has a first
  pass store \<open>bash\<close> and a second one store nothing. The theorem states the amended claim:
  the error if and only if the field is falsy, the stored name otherwise, no change of the
  service in either case, and the field being what the last pass read.
\<close>

theorem getDefaultProfileName_fails_iff_falsy:
  "(fst (getDefaultProfileName s) = Inl NoDefaultProfile) =
     (priv_defaultProfileName s = None \<or> priv_defaultProfileName s = Some []) \<and>
   (\<forall>name. priv_defaultProfileName s = Some name \<and> name \<noteq> [] \<longrightarrow>
      fst (getDefaultProfileName s) = Inr name) \<and>
   snd (getDefaultProfileName s) = s \<and>
   (priv_primaryOffProcessTerminalService s \<longrightarrow>
      priv_defaultProfileName (snd (detectProfiles env s))
        = defaultProfileSetting env (getPlatformKey env))"
  by (cases "priv_defaultProfileName s")
    (auto simp: getDefaultProfileName_def detectProfiles_def Let_def)

lemma example_after_bash:
  "refreshAvailableProfilesNow bashDefault (fresh bashDefault) =
     (None, (fresh bashDefault)\<lparr>priv_defaultProfileName := Some ''bash'', detectCalls := 1,
        priv_availableProfiles := Some [ProfileA], fired := [[ProfileA]],
        priv_profilesReadyBarrier := \<lparr>isOpen = True, autoOpenTimeMs = 5000\<rparr>,
        priv_webExtensionContributedProfileContextKey := Some False,
        registeredConfiguration := Some (Linux, [ProfileA], []),
        refreshedActions := Some [ProfileA]\<rparr>)"
  by (subst refreshAvailableProfilesNow.simps) (simp add: example_defs method_defs)

theorem getDefaultProfileName_fails_iff_falsy_witness:
  "priv_defaultProfileName (run (fresh bashDefault) [RefreshNow bashDefault]) = Some ''bash'' \<and>
   ''bash'' \<noteq> [] \<and>
   priv_primaryOffProcessTerminalService (run (fresh bashDefault) [RefreshNow bashDefault]) \<and>
   getDefaultProfileName (run (fresh bashDefault) [RefreshNow bashDefault])
     = (Inr ''bash'', run (fresh bashDefault) [RefreshNow bashDefault]) \<and>
   priv_defaultProfileName
      (snd (detectProfiles zshDefault (run (fresh bashDefault) [RefreshNow bashDefault])))
     = Some ''zsh''"
proof -
  let ?s = "run (fresh bashDefault) [RefreshNow bashDefault]"
  have s: "priv_defaultProfileName ?s = Some ''bash''" "priv_primaryOffProcessTerminalService ?s"
    by (simp_all add: run_def example_after_bash) (simp add: example_defs)
  have z: "defaultProfileSetting zshDefault (getPlatformKey zshDefault) = Some ''zsh''"
    by (simp add: example_defs getPlatformKey_def)
  show ?thesis
    using getDefaultProfileName_fails_iff_falsy [of ?s zshDefault] s z
    by (simp add: prod_eq_iff)
qed

theorem getDefaultProfileName_fails_after_a_name_was_stored:
  "fst (getDefaultProfileName (run (fresh bashDefault) [RefreshNow bashDefault])) = Inr ''bash'' \<and>
   fst (getDefaultProfileName (run (fresh bashDefault) [RefreshNow bashDefault, RefreshNow linuxHost]))
     = Inl NoDefaultProfile"
proof -
  let ?s = "snd (refreshAvailableProfilesNow bashDefault (fresh bashDefault))"
  have "priv_defaultProfileName (snd (refreshAvailableProfilesNow linuxHost ?s)) = None"
    by (subst refreshAvailableProfilesNow.simps)
      (simp add: example_after_bash, simp add: example_defs method_defs)
  then show ?thesis
    by (simp add: run_def getDefaultProfileName_def)
      (simp add: example_after_bash)
qed

lemma find_SomeD: "List.find P xs = Some p \<Longrightarrow> p \<in> set xs \<and> P p"
  by (induction xs) (auto split: if_splits)

subsection \<open>The contributed default profile\<close>

text \<open>
  C7 (contributed default guard). For every shell launch config,
  \<^verbatim>\<open>getContributedDefaultProfile\<close> returns the contributed profile whose title is the
  configured default profile name of the platform (the first such one) when the config has
  no \<^verbatim>\<open>executable\<close> key and no extension-host terminal id, and returns nothing in every
  other case; what it returns is a contributed profile with that title. "No id" is
  JavaScript's \<^verbatim>\<open>!shellLaunchConfig.extHostTerminalId\<close>: the property is \<^verbatim>\<open>undefined\<close> or
  empty. The witness is the scenario of the claim: platform key \<open>linux\<close>, default profile
  \<open>bash\<close>, a contributed profile titled \<open>bash\<close>; the config \<^verbatim>\<open>{}\<close> gets that profile and
  the config \<^verbatim>\<open>{executable: "/bin/zsh"}\<close> gets nothing.
\<close>

theorem getContributedDefaultProfile_guard:
  "(executable slc = None \<and> \<not> truthy (extHostTerminalId slc) \<longrightarrow>
      getContributedDefaultProfile env s (Some slc) =
        List.find (\<lambda>p. Some (title p) = defaultProfileSetting env (getPlatformKey env))
          (priv_contributedProfiles s)) \<and>
   (executable slc \<noteq> None \<or> truthy (extHostTerminalId slc) \<longrightarrow>
      getContributedDefaultProfile env s (Some slc) = None) \<and>
   (\<forall>p. getContributedDefaultProfile env s (Some slc) = Some p \<longrightarrow>
      p \<in> set (priv_contributedProfiles s) \<and>
      Some (title p) = defaultProfileSetting env (getPlatformKey env))"
  by (auto simp: getContributedDefaultProfile_def contributedProfiles_def Let_def
      split: if_splits dest: find_SomeD)

lemma example_after_contributions:
  "refreshAvailableProfilesNow withContributions (fresh withContributions) =
     (None, (fresh withContributions)\<lparr>priv_defaultProfileName := Some ''bash'', detectCalls := 1,
        priv_contributedProfiles := [bashContributed, fishContributed],
        priv_availableProfiles := Some [ProfileA], fired := [[ProfileA]],
        priv_profilesReadyBarrier := \<lparr>isOpen = True, autoOpenTimeMs = 5000\<rparr>,
        priv_webExtensionContributedProfileContextKey := Some False,
        registeredConfiguration := Some (Linux, [ProfileA], [bashContributed, fishContributed]),
        refreshedActions := Some [ProfileA]\<rparr>)"
  by (subst refreshAvailableProfilesNow.simps) (simp add: example_defs method_defs)

theorem getContributedDefaultProfile_guard_witness:
  "getPlatformKey withContributions = ''linux'' \<and>
   defaultProfileSetting withContributions ''linux'' = Some ''bash'' \<and>
   title bashContributed = ''bash'' \<and>
   executable \<lparr>extHostTerminalId = None, executable = None\<rparr> = None \<and>
   \<not> truthy (extHostTerminalId \<lparr>extHostTerminalId = None, executable = None\<rparr>) \<and>
   getContributedDefaultProfile withContributions
     (run (fresh withContributions) [RefreshNow withContributions])
     (Some \<lparr>extHostTerminalId = None, executable = None\<rparr>) = Some bashContributed \<and>
   executable \<lparr>extHostTerminalId = None, executable = Some ''/bin/zsh''\<rparr> \<noteq> None \<and>
   getContributedDefaultProfile withContributions
     (run (fresh withContributions) [RefreshNow withContributions])
     (Some \<lparr>extHostTerminalId = None, executable = Some ''/bin/zsh''\<rparr>) = None \<and>
   bashContributed \<in> set (priv_contributedProfiles
     (run (fresh withContributions) [RefreshNow withContributions]))"
proof -
  let ?s = "run (fresh withContributions) [RefreshNow withContributions]"
  have s: "priv_contributedProfiles ?s = [bashContributed, fishContributed]"
    by (simp add: run_def example_after_contributions)
  have k: "getPlatformKey withContributions = ''linux''"
    "defaultProfileSetting withContributions ''linux'' = Some ''bash''"
    "title bashContributed = ''bash''" "title fishContributed = ''fish''"
    by (simp_all add: example_defs getPlatformKey_def)
  show ?thesis
    using getContributedDefaultProfile_guard
        [of "\<lparr>extHostTerminalId = None, executable = None\<rparr>" withContributions ?s]
      getContributedDefaultProfile_guard
        [of "\<lparr>extHostTerminalId = None, executable = Some ''/bin/zsh''\<rparr>" withContributions ?s]
      s k
    by simp
qed

subsection \<open>Contributed profiles set to null\<close>

text \<open>After a cycle that did not fail, the contributed list is the registry minus the nulled titles.\<close>

lemma refresh_contributed:
  assumes "refreshAvailableProfilesNow env s = (None, s')"
  shows "priv_contributedProfiles s' = registryMinusNulled env"
  using assms by (cases env s rule: refresh_cases) (auto simp: compareAndCommit_contributed)

text \<open>
  C8 (excluded contributed profile). For every profile \<open>p\<close> that the contribution registry
  declares: if the value stored under the title of \<open>p\<close> in the \<^verbatim>\<open>profiles.<platform>\<close> setting
  is \<^verbatim>\<open>null\<close>, then after a refresh cycle (one that the backend did not fail) the getter
  \<^verbatim>\<open>contributedProfiles\<close> does not return \<open>p\<close>.
\<close>

theorem nulled_title_is_excluded:
  assumes "refreshAvailableProfilesNow env s = (None, s')"
    and "p \<in> set (terminalProfiles env)"
    and "map_of (profilesSetting env (getPlatformKey env)) (title p) = Some Null"
  shows "p \<notin> set (fst (contributedProfiles s'))"
proof -
  have "(title p, Null) \<in> set (profilesSetting env (getPlatformKey env))"
    using assms(3) by (rule map_of_SomeD)
  then show ?thesis
    using refresh_contributed [OF assms(1)]
    by (simp add: contributedProfiles_def registryMinusNulled_def)
qed

lemma example_after_fishNulled:
  "refreshAvailableProfilesNow fishNulled (fresh fishNulled) =
     (None, (fresh fishNulled)\<lparr>priv_defaultProfileName := Some ''bash'', detectCalls := 1,
        priv_contributedProfiles := [bashContributed],
        priv_availableProfiles := Some [ProfileA], fired := [[ProfileA]],
        priv_profilesReadyBarrier := \<lparr>isOpen = True, autoOpenTimeMs = 5000\<rparr>,
        priv_webExtensionContributedProfileContextKey := Some False,
        registeredConfiguration := Some (Linux, [ProfileA], [bashContributed]),
        refreshedActions := Some [ProfileA]\<rparr>)"
  by (subst refreshAvailableProfilesNow.simps)
    (simp add: example_defs method_defs excluded_titles del: set_map set_filter)

theorem nulled_title_is_excluded_witness:
  "fst (refreshAvailableProfilesNow fishNulled (fresh fishNulled)) = None \<and>
   fishContributed \<in> set (terminalProfiles fishNulled) \<and>
   map_of (profilesSetting fishNulled (getPlatformKey fishNulled)) (title fishContributed)
     = Some Null \<and>
   fishContributed \<notin> set (fst (contributedProfiles
      (snd (refreshAvailableProfilesNow fishNulled (fresh fishNulled))))) \<and>
   fst (contributedProfiles (snd (refreshAvailableProfilesNow fishNulled (fresh fishNulled))))
     = [bashContributed]"
proof -
  let ?r = "refreshAvailableProfilesNow fishNulled (fresh fishNulled)"
  have h1: "?r = (None, snd ?r)"
    by (simp add: example_after_fishNulled)
  have h2: "fishContributed \<in> set (terminalProfiles fishNulled)"
    by (simp add: example_defs)
  have h3: "map_of (profilesSetting fishNulled (getPlatformKey fishNulled)) (title fishContributed)
     = Some Null"
    by (simp add: example_defs getPlatformKey_def)
  have "fst (contributedProfiles (snd ?r)) = [bashContributed]"
    by (simp add: example_after_fishNulled contributedProfiles_def)
  moreover have "fst ?r = None"
    by (simp add: example_after_fishNulled)
  ultimately show ?thesis
    using nulled_title_is_excluded [OF h1 h2 h3] h2 h3 by simp
qed

subsection \<open>A detection that fails\<close>

text \<open>
  C9 (detection failure). The claim: when the backend's detection fails during a refresh, the
  failure reaches the caller as it is, and the snapshot, the contributed list and the
  resolved default name are exactly as before, with no event fired.

  \<^verbatim>\<open>_detectProfiles\<close> assigns \<^verbatim>\<open>_defaultProfileName\<close> from the configuration before it calls
  the backend, so a failed cycle has already overwritten the default name: in the
  counterexample below it was \<open>bash\<close> and is \<open>zsh\<close> after the failure. The theorem states the
  amended claim: the error is the one the backend rejected with; the snapshot, the contributed
  list, the events and the barrier are as before; the default name is the configured one.
\<close>

theorem failed_detection_keeps_lists_not_default:
  assumes "refreshAvailableProfilesNow env s = (Some e, s')"
  shows "priv_availableProfiles s' = priv_availableProfiles s \<and>
         priv_contributedProfiles s' = priv_contributedProfiles s \<and>
         fired s' = fired s \<and>
         priv_profilesReadyBarrier s' = priv_profilesReadyBarrier s \<and>
         priv_defaultProfileName s' = defaultProfileSetting env (getPlatformKey env) \<and>
         (\<exists>k. getProfiles env k (profilesSetting env (getPlatformKey env))
                 (defaultProfileSetting env (getPlatformKey env)) = Inl e)"
proof -
  have detect: "priv_defaultProfileName t' = defaultProfileSetting env (getPlatformKey env) \<and>
      (\<exists>k. getProfiles env k (profilesSetting env (getPlatformKey env))
                 (defaultProfileSetting env (getPlatformKey env)) = Inl e)"
    if "detectProfiles env t = (Inl e, t')" for t t' :: "('a, 'b, 'c) service"
    using that by (auto simp: detectProfiles_def Let_def split: if_splits)
  have "untouched s s'"
    using assms by (cases env s rule: refresh_cases) auto
  moreover have "priv_defaultProfileName s' = defaultProfileSetting env (getPlatformKey env) \<and>
      (\<exists>k. getProfiles env k (profilesSetting env (getPlatformKey env))
                 (defaultProfileSetting env (getPlatformKey env)) = Inl e)"
  proof (cases "detectProfiles env s")
    case (Pair r s1)
    show ?thesis
    proof (cases r)
      case (Inl e1)
      with Pair have "refreshAvailableProfilesNow env s = (Some e1, s1)"
        by (simp add: refresh_fail)
      with assms have "e1 = e" "s1 = s'" by simp_all
      with Pair Inl show ?thesis
        using detect [of s s'] by simp
    next
      case (Inr ps)
      show ?thesis
      proof (cases "ps = [] \<and> priv_ifNoProfilesTryAgain s")
        case False
        then have "\<not> (ps = [] \<and> priv_ifNoProfilesTryAgain s1)"
          using Pair detectProfiles_keeps(5) [of env s r s1] by simp
        with Pair Inr assms show ?thesis by (simp add: refresh_once)
      next
        case True
        let ?t = "s1\<lparr>priv_ifNoProfilesTryAgain := False\<rparr>"
        from True Pair Inr have d: "detectProfiles env s = (Inr [], s1)" by simp
        show ?thesis
        proof (cases "detectProfiles env ?t")
          case inner: (Pair r2 s2)
          with assms d True show ?thesis
            using detect [of ?t s2]
            by (cases r2) (auto simp: refresh_retried)
        qed
      qed
    qed
  qed
  ultimately show ?thesis by (simp add: untouched_def)
qed

lemma example_broken_after_bash:
  "refreshAvailableProfilesNow brokenZsh (snd (refreshAvailableProfilesNow bashDefault (fresh bashDefault)))
     = (Some (BackendFailure ''pty host unresponsive''),
        (snd (refreshAvailableProfilesNow bashDefault (fresh bashDefault)))
          \<lparr>priv_defaultProfileName := Some ''zsh'', detectCalls := 2\<rparr>)"
  by (subst refreshAvailableProfilesNow.simps)
    (simp add: example_after_bash, simp add: example_defs method_defs)

theorem failed_detection_keeps_lists_not_default_witness:
  "fst (refreshAvailableProfilesNow brokenZsh (run (fresh bashDefault) [RefreshNow bashDefault]))
     = Some (BackendFailure ''pty host unresponsive'') \<and>
   priv_availableProfiles
     (snd (refreshAvailableProfilesNow brokenZsh (run (fresh bashDefault) [RefreshNow bashDefault])))
     = Some [ProfileA] \<and>
   fired
     (snd (refreshAvailableProfilesNow brokenZsh (run (fresh bashDefault) [RefreshNow bashDefault])))
     = [[ProfileA]]"
proof -
  let ?s = "run (fresh bashDefault) [RefreshNow bashDefault]"
  let ?r = "refreshAvailableProfilesNow brokenZsh ?s"
  have h: "?r = (Some (BackendFailure ''pty host unresponsive''), snd ?r)"
    by (simp add: run_def example_broken_after_bash)
  have "priv_availableProfiles ?s = Some [ProfileA]" "fired ?s = [[ProfileA]]"
    by (simp_all add: run_def example_after_bash)
  moreover have "fst ?r = Some (BackendFailure ''pty host unresponsive'')"
    by (simp add: run_def example_broken_after_bash)
  ultimately show ?thesis
    using failed_detection_keeps_lists_not_default [OF h] by simp
qed

theorem failed_detection_overwrites_default:
  "fst (refreshAvailableProfilesNow brokenZsh (run (fresh bashDefault) [RefreshNow bashDefault]))
     = Some (BackendFailure ''pty host unresponsive'') \<and>
   priv_defaultProfileName (run (fresh bashDefault) [RefreshNow bashDefault]) = Some ''bash'' \<and>
   priv_defaultProfileName
     (snd (refreshAvailableProfilesNow brokenZsh (run (fresh bashDefault) [RefreshNow bashDefault])))
     = Some ''zsh''"
  by (simp add: run_def example_broken_after_bash) (simp add: example_after_bash)

subsection \<open>Histories\<close>

lemma run_Nil [simp]: "run s [] = s"
  by (simp add: run_def)

lemma run_Cons [simp]: "run s (op # ops) = run (step s op) ops"
  by (simp add: run_def)

lemma run_append: "run s (ops @ later) = run (run s ops) later"
  by (simp add: run_def)

text \<open>What holds after the constructor and is kept by every step holds after every history.\<close>

lemma run_invariant:
  assumes "I s" and "\<And>t op. I t \<Longrightarrow> I (step t op)"
  shows "I (run s ops)"
  using assms(1) by (induction ops arbitrary: s) (simp_all add: assms(2))

text \<open>
  The state after a cycle: the cache as before (the cycle failed), or one comparison after a
  detection, or two comparisons after two detections. The flag is never set again.
\<close>

lemma refresh_state_cases [case_names failed compared retried]:
  obtains
    (failed) "untouched s (snd (refreshAvailableProfilesNow env s))"
      and "priv_ifNoProfilesTryAgain (snd (refreshAvailableProfilesNow env s))
             \<longrightarrow> priv_ifNoProfilesTryAgain s"
  | (compared) ps s1 where "snd (refreshAvailableProfilesNow env s) = compareAndCommit env ps s1"
      and "untouched s s1"
      and "priv_ifNoProfilesTryAgain s1 = priv_ifNoProfilesTryAgain s"
      and "\<not> (ps = [] \<and> priv_ifNoProfilesTryAgain s)"
  | (retried) ps s2 where
      "snd (refreshAvailableProfilesNow env s)
         = compareAndCommit env [] (compareAndCommit env ps s2)"
      and "untouched s s2"
      and "\<not> priv_ifNoProfilesTryAgain s2"
proof (cases "detectProfiles env s")
  case (Pair r s1)
  note first = this
  have flag: "priv_ifNoProfilesTryAgain s1 = priv_ifNoProfilesTryAgain s"
    using first by (rule detectProfiles_keeps)
  have u1: "untouched s s1"
    using first by (rule detectProfiles_untouched)
  show thesis
  proof (cases r)
    case (Inl e)
    with first have "refreshAvailableProfilesNow env s = (Some e, s1)"
      by (simp add: refresh_fail)
    with u1 flag failed show thesis by simp
  next
    case (Inr ps)
    show thesis
    proof (cases "ps = [] \<and> priv_ifNoProfilesTryAgain s")
      case False
      with first Inr flag have "refreshAvailableProfilesNow env s
          = (None, compareAndCommit env ps s1)"
        by (simp add: refresh_once)
      with u1 flag False compared show thesis by simp
    next
      case True
      then have d: "detectProfiles env s = (Inr [], s1)" and f: "priv_ifNoProfilesTryAgain s"
        using first Inr by simp_all
      let ?t = "s1\<lparr>priv_ifNoProfilesTryAgain := False\<rparr>"
      show thesis
      proof (cases "detectProfiles env ?t")
        case (Pair r2 s2)
        then have "untouched ?t s2" by (rule detectProfiles_untouched)
        with u1 have u: "untouched s s2" by (simp add: untouched_def)
        have f2: "\<not> priv_ifNoProfilesTryAgain s2"
          using Pair detectProfiles_keeps(5) [of env ?t r2 s2] by simp
        show thesis
        proof (cases r2)
          case (Inl e)
          with Pair d f have "refreshAvailableProfilesNow env s = (Some e, s2)"
            by (simp add: refresh_retried)
          with u f2 failed show thesis by simp
        next
          case (Inr ps2)
          with Pair d f have "refreshAvailableProfilesNow env s
              = (None, compareAndCommit env [] (compareAndCommit env ps2 s2))"
            by (simp add: refresh_retried)
          with u f2 retried show thesis by simp
        qed
      qed
    qed
  qed
qed

text \<open>The steps other than a refresh cycle and the clock leave the cache alone.\<close>

lemma getDefaultProfileName_state: "snd (getDefaultProfileName s) = s"
  by (simp add: getDefaultProfileName_def split: option.splits)

lemma step_other:
  assumes "op \<in> {GetAvailableProfiles, GetContributedProfiles, GetDefaultProfileName}
           \<or> (\<exists>e i p. op = Register e i p \<or> op = Dispose e i p)"
  shows "priv_availableProfiles (step s op) = priv_availableProfiles s"
    and "priv_contributedProfiles (step s op) = priv_contributedProfiles s"
    and "fired (step s op) = fired s"
    and "priv_profilesReadyBarrier (step s op) = priv_profilesReadyBarrier s"
    and "priv_ifNoProfilesTryAgain (step s op) = priv_ifNoProfilesTryAgain s"
    and "elapsedMs (step s op) = elapsedMs s"
  using assms
  by (auto simp: availableProfiles_def contributedProfiles_def
      getDefaultProfileName_state refreshAvailableProfiles_def
      registerTerminalProfileProvider_def Let_def)

lemma step_elapse:
  "priv_availableProfiles (step s (Elapse ms)) = priv_availableProfiles s"
  "priv_contributedProfiles (step s (Elapse ms)) = priv_contributedProfiles s"
  "fired (step s (Elapse ms)) = fired s"
  "priv_ifNoProfilesTryAgain (step s (Elapse ms)) = priv_ifNoProfilesTryAgain s"
  "elapsedMs (step s (Elapse ms)) = elapsedMs s + ms"
  "autoOpenTimeMs (priv_profilesReadyBarrier (step s (Elapse ms)))
     = autoOpenTimeMs (priv_profilesReadyBarrier s)"
  "isOpen (priv_profilesReadyBarrier (step s (Elapse ms)))
     = (isOpen (priv_profilesReadyBarrier s)
        \<or> autoOpenTimeMs (priv_profilesReadyBarrier s) \<le> elapsedMs s + ms)"
  by (simp_all add: elapse_def barrier_elapse_def barrier_open_def Let_def)

subsection \<open>The flag and the snapshot\<close>

lemma flagUnused_refresh:
  assumes "flagUnused s"
  shows "flagUnused (snd (refreshAvailableProfilesNow env s))"
proof (cases env s rule: refresh_state_cases)
  case failed
  with assms show ?thesis by (auto simp: flagUnused_def untouched_def)
next
  case (compared ps s1)
  with assms show ?thesis
    by (auto simp: flagUnused_def untouched_def compareAndCommit_eq)
next
  case (retried ps s2)
  then show ?thesis
    by (simp add: flagUnused_def compareAndCommit_keeps)
qed

lemma flagUnused_step: "flagUnused s \<Longrightarrow> flagUnused (step s op)"
proof (cases op)
  case (RefreshNow env)
  assume "flagUnused s"
  with RefreshNow show ?thesis by (simp add: flagUnused_refresh)
next
  case (Elapse ms)
  assume "flagUnused s"
  with Elapse show ?thesis by (simp add: flagUnused_def step_elapse del: step.simps)
qed (simp_all add: flagUnused_def step_other del: step.simps)

lemma flagUnused_constructor: "flagUnused (constructor env)"
  by (simp add: flagUnused_def constructor_def refreshAvailableProfiles_def)

lemma flagUnused_run: "flagUnused (run (constructor env) ops)"
  using flagUnused_constructor flagUnused_step by (rule run_invariant)

subsection \<open>Before the first commit\<close>

lemma first_cycle_commits:
  assumes "priv_availableProfiles s = None"
    and "fired (snd (refreshAvailableProfilesNow env s)) = fired s"
  shows "untouched s (snd (refreshAvailableProfilesNow env s))"
proof (cases env s rule: refresh_state_cases)
  case failed
  then show ?thesis by simp
next
  case (compared ps s1)
  with assms have "differs env ps s1" by (simp add: differs_def untouched_def)
  with compared assms(2) show ?thesis
    by (simp add: compareAndCommit_fired untouched_def)
next
  case (retried ps s2)
  with assms have "differs env ps s2" by (simp add: differs_def untouched_def)
  with retried assms(2) show ?thesis
    by (simp add: compareAndCommit_fired untouched_def split: if_splits)
qed

lemma refresh_fired_grows:
  "\<exists>new. fired (snd (refreshAvailableProfilesNow env s)) = fired s @ new"
proof (cases env s rule: refresh_state_cases)
  case failed
  then show ?thesis by (simp add: untouched_def)
next
  case (compared ps s1)
  then show ?thesis by (simp add: compareAndCommit_fired untouched_def)
next
  case (retried ps s2)
  then show ?thesis by (simp add: compareAndCommit_fired untouched_def)
qed

lemma nothingCommitted_step:
  assumes "nothingCommitted s"
  shows "nothingCommitted (step s op)"
proof (cases op)
  case (RefreshNow env)
  obtain new where new: "fired (snd (refreshAvailableProfilesNow env s)) = fired s @ new"
    using refresh_fired_grows by blast
  show ?thesis
  proof (cases "fired s = [] \<and> new = []")
    case True
    with assms have "priv_availableProfiles s = None"
      by (simp add: nothingCommitted_def)
    then have "untouched s (snd (refreshAvailableProfilesNow env s))"
      using new True by (simp add: first_cycle_commits)
    with assms RefreshNow show ?thesis
      by (simp add: nothingCommitted_def untouched_def)
  next
    case False
    with new RefreshNow show ?thesis
      by (auto simp: nothingCommitted_def)
  qed
next
  case (Elapse ms)
  with assms show ?thesis by (simp add: nothingCommitted_def step_elapse del: step.simps)
qed (use assms in \<open>simp_all add: nothingCommitted_def step_other del: step.simps\<close>)

text \<open>
  C10 (the getters are total). Both getters return a list: the result type of the model has
  no \<^verbatim>\<open>undefined\<close>, and \<^verbatim>\<open>availableProfiles\<close> replaces the missing snapshot by the empty
  list. After every history of calls in which no refresh cycle has committed yet (no event
  has fired since the constructor), both getters return the empty list.
\<close>

theorem getters_return_lists:
  assumes "fired (run (constructor env) ops) = []"
  shows "fst (availableProfiles (run (constructor env) ops)) = [] \<and>
         fst (contributedProfiles (run (constructor env) ops)) = []"
proof -
  have "nothingCommitted (constructor env :: ('a, 'b, 'c) service)"
    by (simp add: nothingCommitted_def constructor_def refreshAvailableProfiles_def)
  then have "nothingCommitted (run (constructor env :: ('a, 'b, 'c) service) ops)"
    using nothingCommitted_step by (rule run_invariant)
  with assms show ?thesis
    by (simp add: nothingCommitted_def availableProfiles_def contributedProfiles_def
        refreshAvailableProfiles_def Let_def)
qed

theorem getters_return_lists_witness:
  "fired (run (fresh brokenBackend) [RefreshNow brokenBackend, GetAvailableProfiles, Elapse 100]) = [] \<and>
   fst (availableProfiles
     (run (fresh brokenBackend) [RefreshNow brokenBackend, GetAvailableProfiles, Elapse 100])) = [] \<and>
   fst (contributedProfiles
     (run (fresh brokenBackend) [RefreshNow brokenBackend, GetAvailableProfiles, Elapse 100])) = []"
proof -
  let ?ops = "[RefreshNow brokenBackend, GetAvailableProfiles, Elapse 100]
    :: (string list, string, nat) operation list"
  have "refreshAvailableProfilesNow brokenBackend (fresh brokenBackend)
     = (Some (BackendFailure ''pty host unresponsive''),
        (fresh brokenBackend)\<lparr>priv_defaultProfileName := None, detectCalls := 1\<rparr>)"
    by (subst refreshAvailableProfilesNow.simps) (simp add: example_defs method_defs)
  then have h: "fired (run (constructor brokenBackend) ?ops) = []"
    by (simp add: availableProfiles_def elapse_def Let_def refreshAvailableProfiles_def)
      (simp add: example_defs)
  show ?thesis
    using getters_return_lists [OF h] h by (simp add: fresh_def)
qed

subsection \<open>The readiness barrier\<close>

lemma barrierTracks_refresh:
  assumes "barrierTracks s"
  shows "barrierTracks (snd (refreshAvailableProfilesNow env s))"
proof (cases env s rule: refresh_state_cases)
  case failed
  with assms show ?thesis by (simp add: barrierTracks_def untouched_def)
next
  case (compared ps s1)
  with assms show ?thesis
    by (simp add: barrierTracks_def untouched_def compareAndCommit_eq barrier_open_def)
next
  case (retried ps s2)
  with assms show ?thesis
    by (simp add: barrierTracks_def untouched_def compareAndCommit_eq barrier_open_def)
qed

lemma barrierTracks_step:
  assumes "barrierTracks s"
  shows "barrierTracks (step s op)"
proof (cases op)
  case (RefreshNow env)
  with assms show ?thesis by (simp add: barrierTracks_refresh)
next
  case (Elapse ms)
  with assms show ?thesis
    by (auto simp: barrierTracks_def step_elapse simp del: step.simps)
qed (use assms in \<open>simp_all add: barrierTracks_def step_other del: step.simps\<close>)

lemma barrierTracks_constructor: "barrierTracks (constructor env)"
  by (simp add: barrierTracks_def constructor_def refreshAvailableProfiles_def AutoOpenBarrier_def)

lemma profilesReady_refresh:
  assumes "profilesReady s"
  shows "profilesReady (snd (refreshAvailableProfilesNow env s))"
proof (cases env s rule: refresh_state_cases)
  case failed
  with assms show ?thesis by (simp add: profilesReady_def untouched_def)
next
  case (compared ps s1)
  with assms show ?thesis
    by (simp add: profilesReady_def untouched_def compareAndCommit_eq barrier_open_def)
next
  case (retried ps s2)
  with assms show ?thesis
    by (simp add: profilesReady_def untouched_def compareAndCommit_eq barrier_open_def)
qed

lemma profilesReady_step:
  assumes "profilesReady s"
  shows "profilesReady (step s op)"
proof (cases op)
  case (RefreshNow env)
  with assms show ?thesis by (simp add: profilesReady_refresh)
next
  case (Elapse ms)
  with assms show ?thesis
    by (simp add: profilesReady_def step_elapse del: step.simps)
qed (use assms in \<open>simp_all add: profilesReady_def step_other del: step.simps\<close>)

text \<open>
  C4 (readiness). After every history of calls, \<^verbatim>\<open>profilesReady\<close> resolves if and only if
  a refresh cycle has committed (an event has fired) or 5000 milliseconds have passed since
  the constructor: the barrier opens at the first of the two. Once it resolves, it resolves
  after every longer history too, whatever the later refresh cycles do.
\<close>

theorem barrier_opens_once_and_stays_open:
  "profilesReady (run (constructor env) ops) =
     (fired (run (constructor env) ops) \<noteq> [] \<or> 5000 \<le> elapsedMs (run (constructor env) ops)) \<and>
   (profilesReady (run (constructor env) ops) \<longrightarrow>
      profilesReady (run (constructor env) (ops @ later)))"
proof -
  have "barrierTracks (run (constructor env :: ('a, 'b, 'c) service) ops)"
    using barrierTracks_constructor barrierTracks_step by (rule run_invariant)
  moreover have "profilesReady (run (run (constructor env :: ('a, 'b, 'c) service) ops) later)"
    if "profilesReady (run (constructor env :: ('a, 'b, 'c) service) ops)"
    using that profilesReady_step by (rule run_invariant)
  ultimately show ?thesis
    by (simp add: barrierTracks_def profilesReady_def run_append)
qed

theorem barrier_opens_once_and_stays_open_witness:
  "\<not> profilesReady (run (fresh brokenBackend) [RefreshNow brokenBackend, Elapse 4999]) \<and>
   profilesReady (run (fresh brokenBackend) [RefreshNow brokenBackend, Elapse 4999, Elapse 1]) \<and>
   profilesReady (run (fresh bashDefault) [RefreshNow bashDefault]) \<and>
   profilesReady (run (fresh bashDefault) ([RefreshNow bashDefault] @ [RefreshNow brokenZsh]))"
proof -
  have broken: "refreshAvailableProfilesNow brokenBackend (fresh brokenBackend)
     = (Some (BackendFailure ''pty host unresponsive''),
        (fresh brokenBackend)\<lparr>priv_defaultProfileName := None, detectCalls := 1\<rparr>)"
    by (subst refreshAvailableProfilesNow.simps) (simp add: example_defs method_defs)
  have a: "\<not> profilesReady (run (fresh brokenBackend) [RefreshNow brokenBackend, Elapse 4999])"
    by (simp add: broken profilesReady_def elapse_def barrier_elapse_def Let_def)
      (simp add: example_defs)
  have b: "profilesReady (run (fresh brokenBackend) [RefreshNow brokenBackend, Elapse 4999, Elapse 1])"
    by (simp add: broken profilesReady_def elapse_def barrier_elapse_def barrier_open_def Let_def)
      (simp add: example_defs)
  have c: "fired (run (constructor bashDefault :: (string list, string, nat) service)
      [RefreshNow bashDefault]) \<noteq> []"
    using example_after_bash by (simp add: fresh_def)
  show ?thesis
    using a b c
      barrier_opens_once_and_stays_open
        [of bashDefault "[RefreshNow bashDefault] :: (string list, string, nat) operation list"
          "[RefreshNow brokenZsh]"]
    by (simp add: fresh_def)
qed

subsection \<open>Change events\<close>

lemma differs_untouched: "untouched s t \<Longrightarrow> differs env ps t = differs env ps s"
  by (simp add: differs_def untouched_def)

lemma refresh_fires_iff:
  assumes "flagUnused s"
    and "detectProfiles env s = (Inr ps, s1)"
    and "refreshAvailableProfilesNow env s = (None, s')"
  shows "(fired s' \<noteq> fired s) = differs env ps s"
proof (cases env s rule: refresh_cases)
  case (failed e t)
  with assms(3) show ?thesis by simp
next
  case (compared ps' t)
  with assms(2,3) have "ps' = ps" "t = s1" "s' = compareAndCommit env ps s1" by simp_all
  moreover have "untouched s s1" using assms(2) by (rule detectProfiles_untouched)
  ultimately show ?thesis
    by (simp add: compareAndCommit_fired differs_untouched) (simp add: untouched_def)
next
  case (retried ps2 t s2)
  with assms(2,3) have ps: "ps = []" and s': "s' = compareAndCommit env [] (compareAndCommit env ps2 s2)"
    by simp_all
  have "untouched s t" "untouched (t\<lparr>priv_ifNoProfilesTryAgain := False\<rparr>) s2"
    using retried by (simp_all add: detectProfiles_untouched)
  then have u: "untouched s s2" by (simp add: untouched_def)
  have "priv_availableProfiles s \<noteq> Some []"
    using assms(1) retried(4) by (simp add: flagUnused_def)
  then have d: "differs env [] s" by (simp add: differs_def equals_empty del: equals.simps)
  have "fired s' \<noteq> fired s"
  proof (cases "differs env ps2 s2")
    case True
    with u show ?thesis by (simp add: s' compareAndCommit_fired untouched_def)
  next
    case False
    then have "priv_availableProfiles (compareAndCommit env ps2 s2) = priv_availableProfiles s"
      using u by (simp add: compareAndCommit_available untouched_def)
    with \<open>priv_availableProfiles s \<noteq> Some []\<close>
    have "differs env [] (compareAndCommit env ps2 s2)"
      by (simp add: differs_def equals_empty del: equals.simps)
    with False u show ?thesis by (simp add: s' compareAndCommit_fired untouched_def)
  qed
  with d ps show ?thesis by simp
qed

lemma differs_unfolded:
  "differs env ps s =
     ((case priv_availableProfiles s of
         None \<Rightarrow> True
       | Some previous \<Rightarrow>
           \<not> list_all2
               (\<lambda>one other.
                  profileName one = profileName other \<and>
                  terminalProfileArgsMatch env (args one) (args other) \<and>
                  color one = color other \<and>
                  terminalIconsEqual env (icon one) (icon other) \<and>
                  isAutoDetected one = isAutoDetected other \<and>
                  isDefault one = isDefault other \<and>
                  overrideName one = overrideName other \<and>
                  path one = path other)
               ps previous) \<or>
      \<not> list_all2
          (\<lambda>one other.
             extensionIdentifier one = extensionIdentifier other \<and>
             color_c one = color_c other \<and>
             strictEquals (icon_c one) (icon_c other) \<and>
             id_c one = id_c other \<and>
             title one = title other)
          (registryMinusNulled env) (priv_contributedProfiles s))"
proof -
  have p: "profilesEqual env = (\<lambda>one other.
                  profileName one = profileName other \<and>
                  terminalProfileArgsMatch env (args one) (args other) \<and>
                  color one = color other \<and>
                  terminalIconsEqual env (icon one) (icon other) \<and>
                  isAutoDetected one = isAutoDetected other \<and>
                  isDefault one = isDefault other \<and>
                  overrideName one = overrideName other \<and>
                  path one = path other)"
    by (intro ext) (simp add: profilesEqual_def)
  have c: "contributedProfilesEqual = (\<lambda>one other.
             extensionIdentifier one = extensionIdentifier other \<and>
             color_c one = color_c other \<and>
             strictEquals (icon_c one) (icon_c other) \<and>
             id_c one = id_c other \<and>
             title one = title other)"
    by (intro ext) (simp add: contributedProfilesEqual_def)
  show ?thesis
    unfolding differs_def p c by (cases "priv_availableProfiles s") simp_all
qed

lemma compared_cycle_fired:
  assumes "detectProfiles env s = (Inr ps, s1)"
    and "\<not> (ps = [] \<and> priv_ifNoProfilesTryAgain s)"
    and "refreshAvailableProfilesNow env s = (r, s')"
  shows "r = None \<and> fired s' = fired s @ (if differs env ps s then [ps] else [])"
proof -
  have u: "untouched s s1" and f: "priv_ifNoProfilesTryAgain s1 = priv_ifNoProfilesTryAgain s"
    using assms(1) by (simp_all add: detectProfiles_untouched detectProfiles_keeps)
  then have "refreshAvailableProfilesNow env s = (None, compareAndCommit env ps s1)"
    using assms(1,2) by (simp add: refresh_once)
  with assms(3) have r: "r = None" and s': "s' = compareAndCommit env ps s1" by simp_all
  have "fired s' = fired s @ (if differs env ps s then [ps] else [])"
    using u by (simp add: s' compareAndCommit_fired differs_untouched) (simp add: untouched_def)
  with r show ?thesis by simp
qed

lemma list_all2_is_equality:
  assumes "\<And>x y. x \<in> set xs \<Longrightarrow> y \<in> set ys \<Longrightarrow> P x y = (x = y)"
  shows "list_all2 P xs ys = (xs = ys)"
  using assms
proof (induction xs arbitrary: ys)
  case Nil
  then show ?case by (cases ys) simp_all
next
  case (Cons x xs)
  then show ?case by (cases ys) auto
qed

lemma strictEquals_values:
  assumes "\<And>reference content. a \<noteq> Object reference content"
  shows "strictEquals a b = (a = b)"
  using assms by (cases a; cases b) simp_all

text \<open>
  A cycle that does not retry fires when the lists differ. When the two helpers compare by
  value and no contributed icon is an object, that is plain inequality of the lists.
\<close>

lemma change_event_iff_values_differ:
  fixes s :: "('a, 'i, 'p) service"
  assumes "terminalProfileArgsMatch env = (=)" and "terminalIconsEqual env = (=)"
    and "\<And>p reference content. p \<in> set (registryMinusNulled env)
           \<Longrightarrow> icon_c p \<noteq> Object reference content"
    and "detectProfiles env s = (Inr ps, s1)"
    and "\<not> (ps = [] \<and> priv_ifNoProfilesTryAgain s)"
    and "refreshAvailableProfilesNow env s = (r, s')"
  shows "r = None \<and>
     fired s' = fired s @
       (if priv_availableProfiles s \<noteq> Some ps
           \<or> priv_contributedProfiles s \<noteq> registryMinusNulled env
        then [ps] else [])"
proof -
  have "(profileName one = profileName other \<and> args one = args other \<and>
         color one = color other \<and> icon one = icon other \<and>
         isAutoDetected one = isAutoDetected other \<and> isDefault one = isDefault other \<and>
         overrideName one = overrideName other \<and> path one = path other) = (one = other)"
    for one other :: "('a, 'i) terminal_profile"
    by (cases one, cases other) auto
  then have p: "list_all2
       (\<lambda>one other.
          profileName one = profileName other \<and>
          terminalProfileArgsMatch env (args one) (args other) \<and>
          color one = color other \<and>
          terminalIconsEqual env (icon one) (icon other) \<and>
          isAutoDetected one = isAutoDetected other \<and>
          isDefault one = isDefault other \<and>
          overrideName one = overrideName other \<and>
          path one = path other) ps previous = (ps = previous)" for previous
    by (simp add: assms(1,2) list.rel_eq)
  have "(extensionIdentifier one = extensionIdentifier other \<and> color_c one = color_c other \<and>
         strictEquals (icon_c one) (icon_c other) \<and> id_c one = id_c other \<and>
         title one = title other) = (one = other)"
    if "one \<in> set (registryMinusNulled env)" for one other :: extension_terminal_profile
    using strictEquals_values [of "icon_c one" "icon_c other"] assms(3) [OF that]
    by (cases one, cases other) auto
  then have c: "list_all2
       (\<lambda>one other.
          extensionIdentifier one = extensionIdentifier other \<and>
          color_c one = color_c other \<and>
          strictEquals (icon_c one) (icon_c other) \<and>
          id_c one = id_c other \<and>
          title one = title other)
       (registryMinusNulled env) (priv_contributedProfiles s)
     = (registryMinusNulled env = priv_contributedProfiles s)"
    by (intro list_all2_is_equality) simp
  have "differs env ps s = (priv_availableProfiles s \<noteq> Some ps
      \<or> priv_contributedProfiles s \<noteq> registryMinusNulled env)"
    unfolding differs_unfolded p c by (cases "priv_availableProfiles s") auto
  then show ?thesis
    using compared_cycle_fired [OF assms(4,5,6)] by simp
qed

text \<open>
  A detected list with the same field values as the snapshot (a new array, the same items)
  fires nothing, when the contributed list is unchanged and the two helpers accept equal
  values.
\<close>

lemma profilesEqual_refl:
  assumes "\<And>a. terminalProfileArgsMatch env a a" and "\<And>i. terminalIconsEqual env i i"
  shows "equals (profilesEqual env) (Some ps) (Some ps)"
  using assms by (simp add: profilesEqual_def list_all2_same)

lemma equal_lists_fire_nothing:
  assumes "\<And>a. terminalProfileArgsMatch env a a" and "\<And>i. terminalIconsEqual env i i"
    and "flagUnused s"
    and "priv_availableProfiles s = Some ps"
    and "priv_contributedProfiles s = registryMinusNulled env"
    and "detectProfiles env s = (Inr ps, s1)"
    and "refreshAvailableProfilesNow env s = (None, s')"
  shows "fired s' = fired s"
proof -
  have "\<not> differs env ps s"
    using profilesEqual_refl [OF assms(1,2)] assms(4,5) equals_contributed_refl
    by (simp add: differs_def del: equals.simps)
  then show ?thesis
    using refresh_fires_iff [OF assms(3,6,7)] by simp
qed












end
